theory Spec2Isabelle
  imports Main
begin

section \<open>The Netatmo alarm control panel entity\<close>

text \<open>
  A shallow embedding of \<^verbatim>\<open>custom_components/netatmo_custom/alarm_control_panel.py\<close>.
  The entity borrows a home and a device from the client library, mutates the home's
  persons in its command handlers, and caches an availability flag and a state in
  \<^verbatim>\<open>_attr_available\<close> and \<^verbatim>\<open>_attr_state\<close> when its update callback runs.
  Everything the methods do beyond returning is explicit here: the objects they read and
  write are fields of one record, and the calls they make on collaborators are appended
  to a trace.
\<close>

subsection \<open>Data\<close>

text \<open>The three state constants the module imports from the platform.\<close>

datatype alarm_state =
    STATE_ALARM_DISARMED
  | STATE_ALARM_ARMED_AWAY
  | STATE_ALARM_ARMED_HOME

text \<open>
  \<^verbatim>\<open>NetatmoAlarmControlPanelEntityDescription\<close> (a frozen dataclass) and the one instance
  of it, \<^verbatim>\<open>ALARM_TYPE\<close>. The first label of the list is Python's \<^verbatim>\<open>None\<close>.
\<close>

record NetatmoAlarmControlPanelEntityDescription =
  key :: string
  netatmo_name :: string
  netatmo_alarm_states :: "alarm_state option list"

definition ALARM_TYPE :: NetatmoAlarmControlPanelEntityDescription where
  "ALARM_TYPE =
     \<lparr> key = ''netatmo_alarm'',
       netatmo_name = ''alarm'',
       netatmo_alarm_states =
         [None, Some STATE_ALARM_DISARMED, Some STATE_ALARM_ARMED_AWAY,
          Some STATE_ALARM_ARMED_HOME] \<rparr>"

text \<open>
  The client library's objects, with the attributes this file reads or writes. Ids are
  Python strings. A flag the library has not filled in is \<^verbatim>\<open>None\<close>, so the two flags
  are optional booleans. \<^verbatim>\<open>persons\<close> is a dict whose keys are listed and whose values
  are iterated, so it is an association list in insertion order; \<^verbatim>\<open>modules\<close> is a
  dict that is only looked up, so it is a map.
\<close>

record person =
  out_of_sight :: "bool option"

record netatmo_module =
  bridge :: "string option"
  monitoring :: "bool option"

record netatmo_home =
  persons :: "(string \<times> person) list"
  modules :: "string \<rightharpoonup> netatmo_module"

text \<open>
  What the entity does to its collaborators, in the order it does it: the two bulk
  presence calls of the home (\<^verbatim>\<open>async_set_persons_home(person_ids)\<close>,
  \<^verbatim>\<open>async_set_persons_away()\<close>), \<^verbatim>\<open>data_handler.notify(signal_name)\<close>, and
  \<^verbatim>\<open>async_write_ha_state()\<close>, which hands the platform the availability and the state
  the entity holds at that moment.
\<close>

datatype effect =
    Set_persons_home "string list"
  | Set_persons_away
  | Notify string
  | Write_ha_state bool "alarm_state option"

text \<open>
  The entity: \<^verbatim>\<open>self.device\<close>, \<^verbatim>\<open>self.home\<close>, \<^verbatim>\<open>self._signal_name\<close>, the two cached
  attributes, and the trace of effects so far. \<^verbatim>\<open>_attr_state\<close> is \<^verbatim>\<open>None\<close> until the
  update callback first assigns it.
\<close>

record entity =
  device :: netatmo_module
  home :: netatmo_home
  signal_name :: string
  attr_available :: bool
  attr_state :: "alarm_state option"
  trace :: "effect list"

text \<open>
  An awaited remote call either returns (its value is not used) or raises; a handler
  either runs to its end or lets the exception out, and in both cases leaves an entity
  behind.
\<close>

datatype exn = Exn string

datatype awaited = Returns | Raises exn

datatype handler_result = Done entity | Raised exn entity

subsection \<open>Python's truth tests\<close>

text \<open>
  \<^verbatim>\<open>x or False\<close> for an optional boolean: \<^verbatim>\<open>None\<close> and \<^verbatim>\<open>False\<close> are falsy and give
  \<^verbatim>\<open>False\<close>, \<^verbatim>\<open>True\<close> gives itself.
\<close>

fun or_False :: "bool option \<Rightarrow> bool" where
  "or_False (Some True) = True"
| "or_False (Some False) = False"
| "or_False None = False"

text \<open>
  The truth value of an optional boolean, of a string (the empty string is falsy) and
  of a module object (an instance of a class with no truth test of its own is truthy).
\<close>

fun truthy_flag :: "bool option \<Rightarrow> bool" where
  "truthy_flag (Some b) = b"
| "truthy_flag None = False"

definition truthy_str :: "string \<Rightarrow> bool" where
  "truthy_str x = (x \<noteq> [])"

definition truthy_module :: "netatmo_module \<Rightarrow> bool" where
  "truthy_module m = True"

text \<open>\<^verbatim>\<open>all(xs)\<close>: the loop stops with \<^verbatim>\<open>False\<close> at the first falsy element.\<close>

fun py_all :: "bool option list \<Rightarrow> bool" where
  "py_all [] = True"
| "py_all (x # xs) = (if truthy_flag x then py_all xs else False)"

subsection \<open>The derived properties\<close>

text \<open>
  \<^verbatim>\<open>is_house_empty\<close>: the list of the persons' flags, then \<^verbatim>\<open>all\<close>.
\<close>

definition is_house_empty :: "entity \<Rightarrow> bool" where
  "is_house_empty s =
     (let persons_out_of_sight = map (\<lambda>(k, p). out_of_sight p) (persons (home s))
      in py_all persons_out_of_sight)"

text \<open>
  \<^verbatim>\<open>is_camera_monitoring\<close>: three nested walrus tests. The first is on the bridge id
  (\<^verbatim>\<open>None\<close> and the empty string are falsy), the second on the result of
  \<^verbatim>\<open>modules.get\<close> (\<^verbatim>\<open>None\<close> when the key is absent, a module object otherwise), the
  third on the same object after \<^verbatim>\<open>cast\<close>, which changes nothing at run time. The cast
  declares the parent a camera, which has the \<^verbatim>\<open>monitoring\<close> attribute. Every path that
  does not reach the inner \<^verbatim>\<open>return\<close> falls through to \<^verbatim>\<open>return False\<close>.
\<close>

definition is_camera_monitoring :: "entity \<Rightarrow> bool" where
  "is_camera_monitoring s =
     (case bridge (device s) of
        None \<Rightarrow> False
      | Some parent_module_id \<Rightarrow>
          if truthy_str parent_module_id then
            (case modules (home s) parent_module_id of
               None \<Rightarrow> False
             | Some parent_module \<Rightarrow>
                 if truthy_module parent_module then
                   (let camera = parent_module in
                    if truthy_module camera then or_False (monitoring camera) else False)
                 else False)
          else False)"

text \<open>
  \<^verbatim>\<open>is_siren_monitoring\<close>: the walrus test is on the entity's own device object; when it
  passes the method returns \<^verbatim>\<open>siren.monitoring or False\<close>.
\<close>

definition is_siren_monitoring :: "entity \<Rightarrow> bool" where
  "is_siren_monitoring s =
     (let siren = device s in
      if truthy_module siren then or_False (monitoring siren) else False)"

subsection \<open>The update callback\<close>

definition async_write_ha_state :: "entity \<Rightarrow> entity" where
  "async_write_ha_state s =
     s\<lparr>trace := trace s @ [Write_ha_state (attr_available s) (attr_state s)]\<rparr>"

definition async_update_callback :: "entity \<Rightarrow> entity" where
  "async_update_callback s =
     (let s1 = s\<lparr>attr_available := (is_camera_monitoring s \<and> is_siren_monitoring s)\<rparr>;
          s2 = (if is_house_empty s1
                then s1\<lparr>attr_state := Some STATE_ALARM_ARMED_AWAY\<rparr>
                else s1\<lparr>attr_state := Some STATE_ALARM_DISARMED\<rparr>)
      in async_write_ha_state s2)"

subsection \<open>The command handlers\<close>

text \<open>
  The loop \<^verbatim>\<open>for person in self.home.persons.values(): person.out_of_sight = v\<close>.
\<close>

fun set_out_of_sight :: "bool \<Rightarrow> (string \<times> person) list \<Rightarrow> (string \<times> person) list" where
  "set_out_of_sight v [] = []"
| "set_out_of_sight v ((k, p) # ps) =
     (k, p\<lparr>out_of_sight := Some v\<rparr>) # set_out_of_sight v ps"

text \<open>
  Modelled from the spec: \<^verbatim>\<open>data_handler.notify\<close> is defined in the integration's data
  handler, not in this file. The specification calls it a fire-and-forget emission of
  the update notification on the given signal, consumed elsewhere; the entity's refresh
  is a separate step, run when the notification is delivered.
\<close>

definition notify :: "string \<Rightarrow> entity \<Rightarrow> entity" where
  "notify signal s = s\<lparr>trace := trace s @ [Notify signal]\<rparr>"

text \<open>
  The \<^verbatim>\<open>reply\<close> argument is what the awaited bulk call does. The call is a request of
  the client library to the remote service; for this file it either returns or raises,
  and the home's persons are the same objects before and after it. The call is
  recorded when it is made; if it raises, the rest of the handler does not run.
\<close>

definition async_alarm_disarm :: "string option \<Rightarrow> awaited \<Rightarrow> entity \<Rightarrow> handler_result" where
  "async_alarm_disarm code reply s =
     (let person_ids = map fst (persons (home s));
          s1 = s\<lparr>trace := trace s @ [Set_persons_home person_ids]\<rparr>
      in case reply of
           Raises e \<Rightarrow> Raised e s1
         | Returns \<Rightarrow>
             (let s2 = s1\<lparr>home := (home s1)\<lparr>persons :=
                          set_out_of_sight False (persons (home s1))\<rparr>\<rparr>
              in Done (notify (signal_name s2) s2)))"

definition async_alarm_arm_away :: "string option \<Rightarrow> awaited \<Rightarrow> entity \<Rightarrow> handler_result" where
  "async_alarm_arm_away code reply s =
     (let s1 = s\<lparr>trace := trace s @ [Set_persons_away]\<rparr>
      in case reply of
           Raises e \<Rightarrow> Raised e s1
         | Returns \<Rightarrow>
             (let s2 = s1\<lparr>home := (home s1)\<lparr>persons :=
                          set_out_of_sight True (persons (home s1))\<rparr>\<rparr>
              in Done (notify (signal_name s2) s2)))"

subsection \<open>Sequences of operations\<close>

text \<open>
  The platform invokes the three operations one after another on its event loop. A
  handler that raises leaves the entity as it was at the raise; the platform goes on.
\<close>

datatype operation =
    Disarm "string option" awaited
  | ArmAway "string option" awaited
  | Refresh

fun state_of :: "handler_result \<Rightarrow> entity" where
  "state_of (Done s) = s"
| "state_of (Raised e s) = s"

fun exec :: "operation \<Rightarrow> entity \<Rightarrow> entity" where
  "exec (Disarm code reply) s = state_of (async_alarm_disarm code reply s)"
| "exec (ArmAway code reply) s = state_of (async_alarm_arm_away code reply s)"
| "exec Refresh s = async_update_callback s"

fun run :: "operation list \<Rightarrow> entity \<Rightarrow> entity" where
  "run [] s = s"
| "run (c # cs) s = run cs (exec c s)"

text \<open>The effects added to the trace between two moments, and the states written in them.\<close>

definition effects_since :: "entity \<Rightarrow> entity \<Rightarrow> effect list" where
  "effects_since s s' = drop (length (trace s)) (trace s')"

fun written_states :: "effect list \<Rightarrow> alarm_state option list" where
  "written_states [] = []"
| "written_states (Write_ha_state a st # es) = st # written_states es"
| "written_states (e # es) = written_states es"

subsection \<open>The projection the displayed state is compared with\<close>

text \<open>
  The displayed state and availability as the specification words them, recomputed from
  the persons' and the modules' current flags: armed-away when all known persons are out
  of sight, disarmed otherwise; available when camera and siren are both monitoring.
\<close>

definition all_out_of_sight :: "netatmo_home \<Rightarrow> bool" where
  "all_out_of_sight h = list_all (\<lambda>(k, p). out_of_sight p = Some True) (persons h)"

definition projected_state :: "entity \<Rightarrow> alarm_state" where
  "projected_state s =
     (if all_out_of_sight (home s) then STATE_ALARM_ARMED_AWAY else STATE_ALARM_DISARMED)"

definition projected_available :: "entity \<Rightarrow> bool" where
  "projected_available s = (is_camera_monitoring s \<and> is_siren_monitoring s)"

subsection \<open>Example entities\<close>

text \<open>
  A siren bridged to a camera, both monitoring, in a home with two persons who are in
  sight.
\<close>

definition example_camera :: netatmo_module where
  "example_camera = \<lparr> bridge = None, monitoring = Some True \<rparr>"

definition example_siren :: netatmo_module where
  "example_siren = \<lparr> bridge = Some ''cam'', monitoring = Some True \<rparr>"

definition example_home :: netatmo_home where
  "example_home =
     \<lparr> persons = [(''A'', \<lparr> out_of_sight = Some False \<rparr>),
                  (''B'', \<lparr> out_of_sight = Some False \<rparr>)],
       modules = [''cam'' \<mapsto> example_camera] \<rparr>"

definition example_entity :: entity where
  "example_entity =
     \<lparr> device = example_siren, home = example_home, signal_name = ''home-h'',
       attr_available = True, attr_state = None, trace = [] \<rparr>"

text \<open>The same entity in a home with no person.\<close>

definition no_person_entity :: entity where
  "no_person_entity = example_entity\<lparr>home := example_home\<lparr>persons := []\<rparr>\<rparr>"

section \<open>Helper lemmas\<close>

lemma or_False_iff: "or_False x \<longleftrightarrow> x = Some True"
  by (cases x rule: or_False.cases) simp_all

lemma truthy_flag_iff: "truthy_flag x \<longleftrightarrow> x = Some True"
  by (cases x) simp_all

lemma py_all_iff: "py_all xs \<longleftrightarrow> (\<forall>x \<in> set xs. x = Some True)"
  by (induction xs) (auto simp: truthy_flag_iff)

lemma set_out_of_sight_keys: "map fst (set_out_of_sight v ps) = map fst ps"
  by (induction v ps rule: set_out_of_sight.induct) simp_all

lemma set_out_of_sight_flags:
  "(k, p) \<in> set (set_out_of_sight v ps) \<Longrightarrow> out_of_sight p = Some v"
  by (induction v ps rule: set_out_of_sight.induct) auto

lemma written_states_append:
  "written_states (es @ fs) = written_states es @ written_states fs"
  by (induction es rule: written_states.induct) simp_all

lemma run_append: "run (xs @ ys) s = run ys (run xs s)"
  by (induction xs arbitrary: s) simp_all

lemma house_empty_all:
  "is_house_empty s \<longleftrightarrow> (\<forall>p \<in> snd ` set (persons (home s)). out_of_sight p = Some True)"
  by (auto simp: is_house_empty_def py_all_iff)

lemma all_out_of_sight_all:
  "all_out_of_sight h \<longleftrightarrow> (\<forall>p \<in> snd ` set (persons h). out_of_sight p = Some True)"
  by (auto simp: all_out_of_sight_def list_all_iff)

text \<open>What each operation leaves behind, field by field.\<close>

lemma update_callback_fields:
  "attr_available (async_update_callback s) = (is_camera_monitoring s \<and> is_siren_monitoring s)"
  "attr_state (async_update_callback s) =
     Some (if is_house_empty s then STATE_ALARM_ARMED_AWAY else STATE_ALARM_DISARMED)"
  "home (async_update_callback s) = home s"
  "device (async_update_callback s) = device s"
  "signal_name (async_update_callback s) = signal_name s"
  "trace (async_update_callback s) =
     trace s @ [Write_ha_state (is_camera_monitoring s \<and> is_siren_monitoring s)
       (Some (if is_house_empty s then STATE_ALARM_ARMED_AWAY else STATE_ALARM_DISARMED))]"
  by (simp_all add: async_update_callback_def async_write_ha_state_def Let_def
      is_house_empty_def)

lemma arm_away_returns:
  "async_alarm_arm_away code Returns s =
     Done (s\<lparr>home := (home s)\<lparr>persons := set_out_of_sight True (persons (home s))\<rparr>,
            trace := trace s @ [Set_persons_away, Notify (signal_name s)]\<rparr>)"
  by (simp add: async_alarm_arm_away_def notify_def Let_def)

lemma arm_away_raises:
  "async_alarm_arm_away code (Raises e) s =
     Raised e (s\<lparr>trace := trace s @ [Set_persons_away]\<rparr>)"
  by (simp add: async_alarm_arm_away_def Let_def)

lemma disarm_returns:
  "async_alarm_disarm code Returns s =
     Done (s\<lparr>home := (home s)\<lparr>persons := set_out_of_sight False (persons (home s))\<rparr>,
            trace := trace s @ [Set_persons_home (map fst (persons (home s))),
                                Notify (signal_name s)]\<rparr>)"
  by (simp add: async_alarm_disarm_def notify_def Let_def)

lemma disarm_raises:
  "async_alarm_disarm code (Raises e) s =
     Raised e (s\<lparr>trace := trace s @ [Set_persons_home (map fst (persons (home s)))]\<rparr>)"
  by (simp add: async_alarm_disarm_def Let_def)

lemma update_callback_monitoring:
  "is_camera_monitoring (async_update_callback s) = is_camera_monitoring s"
  "is_siren_monitoring (async_update_callback s) = is_siren_monitoring s"
  by (simp_all add: is_camera_monitoring_def is_siren_monitoring_def update_callback_fields
      cong: option.case_cong)

lemma update_callback_house_empty:
  "is_house_empty (async_update_callback s) = is_house_empty s"
  by (simp add: is_house_empty_def update_callback_fields)

lemma projected_state_house_empty:
  "projected_state s =
     (if is_house_empty s then STATE_ALARM_ARMED_AWAY else STATE_ALARM_DISARMED)"
  by (simp add: projected_state_def house_empty_all all_out_of_sight_all)

text \<open>
  Every operation only appends to the trace, and what it writes to the platform is one
  of the two states the update callback assigns.
\<close>

lemma exec_effects:
  "\<exists>es. trace (exec c s) = trace s @ es
     \<and> set (written_states es) \<subseteq> {Some STATE_ALARM_ARMED_AWAY, Some STATE_ALARM_DISARMED}"
proof (cases c)
  case (Disarm code reply)
  then show ?thesis
    by (cases reply) (simp_all add: disarm_returns disarm_raises)
next
  case (ArmAway code reply)
  then show ?thesis
    by (cases reply) (simp_all add: arm_away_returns arm_away_raises)
next
  case Refresh
  then show ?thesis
    by (simp add: update_callback_fields)
qed

lemma run_effects:
  "\<exists>es. trace (run cs s) = trace s @ es
     \<and> set (written_states es) \<subseteq> {Some STATE_ALARM_ARMED_AWAY, Some STATE_ALARM_DISARMED}"
proof (induction cs arbitrary: s)
  case Nil
  then show ?case by simp
next
  case (Cons c cs)
  obtain es where es: "trace (exec c s) = trace s @ es"
    "set (written_states es) \<subseteq> {Some STATE_ALARM_ARMED_AWAY, Some STATE_ALARM_DISARMED}"
    using exec_effects by blast
  obtain fs where fs: "trace (run cs (exec c s)) = trace (exec c s) @ fs"
    "set (written_states fs) \<subseteq> {Some STATE_ALARM_ARMED_AWAY, Some STATE_ALARM_DISARMED}"
    using Cons.IH by blast
  have "trace (run (c # cs) s) = trace s @ (es @ fs)"
    using es(1) fs(1) by simp
  moreover have "set (written_states (es @ fs))
      \<subseteq> {Some STATE_ALARM_ARMED_AWAY, Some STATE_ALARM_DISARMED}"
    using es(2) fs(2) by (simp add: written_states_append)
  ultimately show ?case by blast
qed

lemma exec_attr_state:
  "attr_state (exec c s) = attr_state s
   \<or> attr_state (exec c s) = Some STATE_ALARM_ARMED_AWAY
   \<or> attr_state (exec c s) = Some STATE_ALARM_DISARMED"
proof (cases c)
  case (Disarm code reply)
  then show ?thesis
    by (cases reply) (simp_all add: disarm_returns disarm_raises)
next
  case (ArmAway code reply)
  then show ?thesis
    by (cases reply) (simp_all add: arm_away_returns arm_away_raises)
next
  case Refresh
  then show ?thesis
    by (simp add: update_callback_fields)
qed

lemma run_attr_state:
  "attr_state (run cs s) = attr_state s
   \<or> attr_state (run cs s) = Some STATE_ALARM_ARMED_AWAY
   \<or> attr_state (run cs s) = Some STATE_ALARM_DISARMED"
proof (induction cs arbitrary: s)
  case Nil
  then show ?case by simp
next
  case (Cons c cs)
  from Cons.IH [of "exec c s"] exec_attr_state [of c s] show ?case
    by auto
qed

section \<open>The derived properties\<close>

text \<open>
  Claim C5. \<^verbatim>\<open>is_house_empty\<close> is true if and only if every person of the home has its
  out-of-sight flag true; in particular it is true of a home with no person.
\<close>

theorem house_empty_iff:
  "(is_house_empty s \<longleftrightarrow> (\<forall>p \<in> snd ` set (persons (home s)). out_of_sight p = Some True))
   \<and> (persons (home s) = [] \<longrightarrow> is_house_empty s)"
  using house_empty_all [of s] by auto

theorem house_empty_iff_witness:
  "\<not> is_house_empty example_entity \<and> is_house_empty no_person_entity
   \<and> is_house_empty (state_of (async_alarm_arm_away None Returns example_entity))"
  using house_empty_iff [of example_entity] house_empty_iff [of no_person_entity]
    house_empty_iff [of "state_of (async_alarm_arm_away None Returns example_entity)"]
  by (simp add: example_entity_def example_home_def no_person_entity_def
      async_alarm_arm_away_def notify_def)

text \<open>
  Claim C10. \<^verbatim>\<open>is_siren_monitoring\<close> equals the monitoring flag of the entity's own
  device: false when the flag is unset or false, true only when it is true.
\<close>

theorem siren_monitoring_flag:
  "(is_siren_monitoring s \<longleftrightarrow> monitoring (device s) = Some True)
   \<and> (monitoring (device s) = None \<longrightarrow> \<not> is_siren_monitoring s)
   \<and> (monitoring (device s) = Some b \<longrightarrow> is_siren_monitoring s = b)"
  by (auto simp: is_siren_monitoring_def truthy_module_def or_False_iff)

theorem siren_monitoring_flag_witness:
  "is_siren_monitoring example_entity
   \<and> \<not> is_siren_monitoring
         (example_entity\<lparr>device := \<lparr>bridge = Some ''cam'', monitoring = None\<rparr>\<rparr>)
   \<and> \<not> is_siren_monitoring
         (example_entity\<lparr>device := \<lparr>bridge = Some ''cam'', monitoring = Some False\<rparr>\<rparr>)"
  using siren_monitoring_flag [of example_entity True]
    siren_monitoring_flag
      [of "example_entity\<lparr>device := \<lparr>bridge = Some ''cam'', monitoring = None\<rparr>\<rparr>" True]
    siren_monitoring_flag
      [of "example_entity\<lparr>device := \<lparr>bridge = Some ''cam'', monitoring = Some False\<rparr>\<rparr>" False]
  by (simp add: example_entity_def example_siren_def)

text \<open>
  Claim C4. \<^verbatim>\<open>is_camera_monitoring\<close> is true exactly when the bridge id is set, the
  parent module is found under it and the parent's monitoring flag is true. It is
  false whenever the bridge id is unset, or no module has that id, or the parent's
  monitoring flag is false or unset. The bridge id is set when it passes the truth test
  of the first walrus.
\<close>

theorem camera_monitoring_iff:
  "(is_camera_monitoring s \<longleftrightarrow>
      (\<exists>b m. bridge (device s) = Some b \<and> truthy_str b \<and> modules (home s) b = Some m
         \<and> monitoring m = Some True))
   \<and> (bridge (device s) = None \<longrightarrow> \<not> is_camera_monitoring s)
   \<and> (bridge (device s) = Some b \<and> modules (home s) b = None \<longrightarrow> \<not> is_camera_monitoring s)
   \<and> (bridge (device s) = Some b \<and> modules (home s) b = Some m \<and> monitoring m = Some False
        \<longrightarrow> \<not> is_camera_monitoring s)
   \<and> (bridge (device s) = Some b \<and> modules (home s) b = Some m \<and> monitoring m = None
        \<longrightarrow> \<not> is_camera_monitoring s)"
  by (auto simp: is_camera_monitoring_def truthy_module_def or_False_iff
      split: option.splits)

theorem camera_monitoring_iff_witness:
  "is_camera_monitoring example_entity
   \<and> \<not> is_camera_monitoring (example_entity\<lparr>device := example_camera\<rparr>)
   \<and> \<not> is_camera_monitoring
         (example_entity\<lparr>device := \<lparr>bridge = Some ''gone'', monitoring = Some True\<rparr>\<rparr>)
   \<and> \<not> is_camera_monitoring
         (example_entity\<lparr>home := \<lparr>persons = [],
            modules = [''cam'' \<mapsto> \<lparr>bridge = None, monitoring = Some False\<rparr>]\<rparr>\<rparr>)
   \<and> \<not> is_camera_monitoring
         (example_entity\<lparr>home := \<lparr>persons = [],
            modules = [''cam'' \<mapsto> \<lparr>bridge = None, monitoring = None\<rparr>]\<rparr>\<rparr>)"
  using camera_monitoring_iff [of example_entity "''cam''" example_camera]
    camera_monitoring_iff [of "example_entity\<lparr>device := example_camera\<rparr>" "''cam''" example_camera]
    camera_monitoring_iff
      [of "example_entity\<lparr>device := \<lparr>bridge = Some ''gone'', monitoring = Some True\<rparr>\<rparr>"
          "''gone''" example_camera]
    camera_monitoring_iff
      [of "example_entity\<lparr>home := \<lparr>persons = [],
             modules = [''cam'' \<mapsto> \<lparr>bridge = None, monitoring = Some False\<rparr>]\<rparr>\<rparr>"
          "''cam''" "\<lparr>bridge = None, monitoring = Some False\<rparr>"]
    camera_monitoring_iff
      [of "example_entity\<lparr>home := \<lparr>persons = [],
             modules = [''cam'' \<mapsto> \<lparr>bridge = None, monitoring = None\<rparr>]\<rparr>\<rparr>"
          "''cam''" "\<lparr>bridge = None, monitoring = None\<rparr>"]
  by (simp add: example_entity_def example_siren_def example_home_def example_camera_def
      truthy_str_def)

section \<open>The update callback\<close>

text \<open>
  Claim C1. The update callback sets the availability to true if and only if camera
  and siren are both monitoring, sets the state to armed-away when every person is out
  of sight and to disarmed otherwise, and then writes availability and state to the
  platform. It changes neither the home nor the device.
\<close>

theorem update_callback_refresh:
  "(attr_available (async_update_callback s) \<longleftrightarrow>
      is_camera_monitoring s \<and> is_siren_monitoring s)
   \<and> ((\<forall>p \<in> snd ` set (persons (home s)). out_of_sight p = Some True) \<longrightarrow>
        attr_state (async_update_callback s) = Some STATE_ALARM_ARMED_AWAY)
   \<and> (\<not> (\<forall>p \<in> snd ` set (persons (home s)). out_of_sight p = Some True) \<longrightarrow>
        attr_state (async_update_callback s) = Some STATE_ALARM_DISARMED)
   \<and> trace (async_update_callback s) =
        trace s @ [Write_ha_state (attr_available (async_update_callback s))
                     (attr_state (async_update_callback s))]
   \<and> home (async_update_callback s) = home s
   \<and> device (async_update_callback s) = device s"
  by (simp add: update_callback_fields house_empty_all)

theorem update_callback_refresh_witness:
  "attr_available (async_update_callback example_entity)
   \<and> attr_state (async_update_callback example_entity) = Some STATE_ALARM_DISARMED
   \<and> attr_state (async_update_callback no_person_entity) = Some STATE_ALARM_ARMED_AWAY
   \<and> \<not> attr_available (async_update_callback (example_entity\<lparr>device := example_camera\<rparr>))
   \<and> trace (async_update_callback example_entity) =
        [Write_ha_state True (Some STATE_ALARM_DISARMED)]"
  using update_callback_refresh [of example_entity] update_callback_refresh [of no_person_entity]
    update_callback_refresh [of "example_entity\<lparr>device := example_camera\<rparr>"]
  by (simp add: example_entity_def example_home_def example_siren_def example_camera_def
      no_person_entity_def is_camera_monitoring_def is_siren_monitoring_def truthy_str_def
      truthy_module_def)

section \<open>The command handlers\<close>

text \<open>
  Claim C2. Whatever the home and the code argument, \<^verbatim>\<open>async_alarm_arm_away\<close> runs to
  its end when the awaited call returns, and only then; after it every person's
  out-of-sight flag is true, the persons are the same ones, and the handler has made
  exactly two calls: the home's bulk set-persons-away call, once, and then one
  notification on the entity's signal name.
\<close>

theorem arm_away_completes:
  "(\<exists>s'. async_alarm_arm_away code Returns s = Done s')
   \<and> (async_alarm_arm_away code reply s = Done s' \<longrightarrow>
        reply = Returns
        \<and> (\<forall>p \<in> snd ` set (persons (home s')). out_of_sight p = Some True)
        \<and> map fst (persons (home s')) = map fst (persons (home s))
        \<and> signal_name s' = signal_name s
        \<and> trace s' = trace s @ [Set_persons_away, Notify (signal_name s)]
        \<and> effects_since s s' = [Set_persons_away, Notify (signal_name s)])"
proof (cases reply)
  case Returns
  then show ?thesis
    by (auto simp: arm_away_returns effects_since_def set_out_of_sight_keys
        dest: set_out_of_sight_flags)
next
  case (Raises e)
  then show ?thesis
    by (simp add: arm_away_raises arm_away_returns)
qed

theorem arm_away_completes_witness:
  "async_alarm_arm_away (Some ''1234'') Returns example_entity =
     Done (example_entity
       \<lparr>home := \<lparr>persons = [(''A'', \<lparr>out_of_sight = Some True\<rparr>),
                            (''B'', \<lparr>out_of_sight = Some True\<rparr>)],
                 modules = [''cam'' \<mapsto> example_camera]\<rparr>,
        trace := [Set_persons_away, Notify ''home-h'']\<rparr>)
   \<and> effects_since example_entity
        (state_of (async_alarm_arm_away (Some ''1234'') Returns example_entity)) =
      [Set_persons_away, Notify ''home-h'']"
  using arm_away_completes [of "Some ''1234''" example_entity Returns
      "state_of (async_alarm_arm_away (Some ''1234'') Returns example_entity)"]
  by (simp add: arm_away_returns example_entity_def example_home_def)

text \<open>
  Claim C3. Whatever the home and the code argument, \<^verbatim>\<open>async_alarm_disarm\<close> runs to its
  end when the awaited call returns, and only then; after it every person's
  out-of-sight flag is false, the persons are the same ones, and the handler has made
  exactly two calls: the home's bulk set-persons-home call, once, with the ids of all
  the home's persons, and then one notification on the entity's signal name.
\<close>

theorem disarm_completes:
  "(\<exists>s'. async_alarm_disarm code Returns s = Done s')
   \<and> (async_alarm_disarm code reply s = Done s' \<longrightarrow>
        reply = Returns
        \<and> (\<forall>p \<in> snd ` set (persons (home s')). out_of_sight p = Some False)
        \<and> map fst (persons (home s')) = map fst (persons (home s))
        \<and> signal_name s' = signal_name s
        \<and> trace s' = trace s @ [Set_persons_home (map fst (persons (home s))),
                                 Notify (signal_name s)]
        \<and> effects_since s s' = [Set_persons_home (map fst (persons (home s))),
                                 Notify (signal_name s)]
        \<and> set (map fst (persons (home s))) = fst ` set (persons (home s)))"
proof (cases reply)
  case Returns
  then show ?thesis
    by (auto simp: disarm_returns effects_since_def set_out_of_sight_keys
        dest: set_out_of_sight_flags)
next
  case (Raises e)
  then show ?thesis
    by (simp add: disarm_raises disarm_returns)
qed

theorem disarm_completes_witness:
  "async_alarm_disarm None Returns
      (state_of (async_alarm_arm_away None Returns example_entity)) =
     Done (example_entity
       \<lparr>trace := [Set_persons_away, Notify ''home-h'',
                   Set_persons_home [''A'', ''B''], Notify ''home-h'']\<rparr>)
   \<and> effects_since (state_of (async_alarm_arm_away None Returns example_entity))
        (state_of (async_alarm_disarm None Returns
           (state_of (async_alarm_arm_away None Returns example_entity)))) =
      [Set_persons_home [''A'', ''B''], Notify ''home-h'']"
  using disarm_completes [of None "state_of (async_alarm_arm_away None Returns example_entity)"
      Returns "state_of (async_alarm_disarm None Returns
           (state_of (async_alarm_arm_away None Returns example_entity)))"]
  by (simp add: arm_away_returns disarm_returns example_entity_def example_home_def)

text \<open>
  Claim C8. When the bulk presence call awaited by \<^verbatim>\<open>async_alarm_arm_away\<close> or
  \<^verbatim>\<open>async_alarm_disarm\<close> raises, the handler lets that same exception out; the home,
  and so every person's out-of-sight flag, is as it was, and the only effect is the
  call itself: no notification has been emitted.
\<close>

theorem remote_failure_propagates:
  "async_alarm_arm_away code (Raises e) s =
     Raised e (s\<lparr>trace := trace s @ [Set_persons_away]\<rparr>)
   \<and> async_alarm_disarm code (Raises e) s =
     Raised e (s\<lparr>trace := trace s @ [Set_persons_home (map fst (persons (home s)))]\<rparr>)
   \<and> home (state_of (async_alarm_arm_away code (Raises e) s)) = home s
   \<and> home (state_of (async_alarm_disarm code (Raises e) s)) = home s
   \<and> Notify sig \<notin> set (effects_since s (state_of (async_alarm_arm_away code (Raises e) s)))
   \<and> Notify sig \<notin> set (effects_since s (state_of (async_alarm_disarm code (Raises e) s)))"
  by (simp add: arm_away_raises disarm_raises effects_since_def)

theorem remote_failure_propagates_witness:
  "async_alarm_arm_away None (Raises (Exn ''timeout'')) example_entity =
     Raised (Exn ''timeout'') (example_entity\<lparr>trace := [Set_persons_away]\<rparr>)
   \<and> async_alarm_disarm None (Raises (Exn ''timeout'')) example_entity =
     Raised (Exn ''timeout'') (example_entity\<lparr>trace := [Set_persons_home [''A'', ''B'']]\<rparr>)"
  using remote_failure_propagates [of None "Exn ''timeout''" example_entity "''home-h''"]
  by (simp add: example_entity_def example_home_def)

text \<open>
  Claim C9. The code argument has no influence: with any two codes, \<^verbatim>\<open>None\<close> included,
  \<^verbatim>\<open>async_alarm_arm_away\<close> gives the same outcome, the same entity and the same calls, and
  so does \<^verbatim>\<open>async_alarm_disarm\<close>.
\<close>

theorem code_ignored:
  "async_alarm_arm_away code1 reply s = async_alarm_arm_away code2 reply s
   \<and> async_alarm_disarm code1 reply s = async_alarm_disarm code2 reply s"
  by (simp add: async_alarm_arm_away_def async_alarm_disarm_def)

theorem code_ignored_witness:
  "async_alarm_arm_away None Returns example_entity =
     async_alarm_arm_away (Some ''1234'') Returns example_entity
   \<and> async_alarm_disarm None Returns example_entity =
     async_alarm_disarm (Some ''1234'') Returns example_entity"
  using code_ignored [of None Returns example_entity "Some ''1234''"]
  by simp

section \<open>Sequences of operations\<close>

text \<open>
  Claim C7. Over any sequence of disarm, arm-away and refresh operations from any
  entity, the trace only grows, every state written to the platform is armed-away or
  disarmed, and the cached state is what it was at the start or one of those two. The
  labels armed-home and \<^verbatim>\<open>None\<close> of the four-entry list of \<^verbatim>\<open>ALARM_TYPE\<close> are never
  written.
\<close>

theorem only_two_states_written:
  "trace (run cs s) = trace s @ effects_since s (run cs s)
   \<and> set (written_states (effects_since s (run cs s)))
        \<subseteq> {Some STATE_ALARM_ARMED_AWAY, Some STATE_ALARM_DISARMED}
   \<and> Some STATE_ALARM_ARMED_HOME \<notin> set (written_states (effects_since s (run cs s)))
   \<and> None \<notin> set (written_states (effects_since s (run cs s)))
   \<and> (attr_state (run cs s) = attr_state s
        \<or> attr_state (run cs s) = Some STATE_ALARM_ARMED_AWAY
        \<or> attr_state (run cs s) = Some STATE_ALARM_DISARMED)
   \<and> netatmo_alarm_states ALARM_TYPE =
        [None, Some STATE_ALARM_DISARMED, Some STATE_ALARM_ARMED_AWAY,
         Some STATE_ALARM_ARMED_HOME]"
proof -
  obtain es where es: "trace (run cs s) = trace s @ es"
    "set (written_states es) \<subseteq> {Some STATE_ALARM_ARMED_AWAY, Some STATE_ALARM_DISARMED}"
    using run_effects by blast
  have since: "effects_since s (run cs s) = es"
    using es(1) by (simp add: effects_since_def)
  have "Some STATE_ALARM_ARMED_HOME \<notin> set (written_states es)"
    "None \<notin> set (written_states es)"
    using es(2) by auto
  with es since run_attr_state [of cs s] show ?thesis
    by (simp add: ALARM_TYPE_def)
qed

theorem only_two_states_written_witness:
  "written_states (effects_since example_entity
      (run [Refresh, ArmAway None Returns, Refresh, Disarm None (Raises (Exn ''timeout'')),
            Disarm None Returns, Refresh] example_entity)) =
     [Some STATE_ALARM_DISARMED, Some STATE_ALARM_ARMED_AWAY, Some STATE_ALARM_DISARMED]
   \<and> attr_state (run [Refresh, ArmAway None Returns, Refresh,
        Disarm None (Raises (Exn ''timeout'')), Disarm None Returns, Refresh] example_entity) =
     Some STATE_ALARM_DISARMED"
  using only_two_states_written [of "[Refresh, ArmAway None Returns, Refresh,
        Disarm None (Raises (Exn ''timeout'')), Disarm None Returns, Refresh]" example_entity]
  by (simp add: arm_away_returns disarm_returns disarm_raises update_callback_fields
      effects_since_def example_entity_def example_home_def is_house_empty_def
      async_update_callback_def async_write_ha_state_def)

text \<open>
  Claim C6, as stated: in every reachable state the displayed state equals the
  projection of the current flags, in particular right after arm-away has changed the
  persons' flags and before any refresh. That fails: the displayed state is the value
  \<^verbatim>\<open>_attr_state\<close> cached by the last update callback. After a refresh of the example
  entity (two persons in sight) and an arm-away, the cached state is still disarmed
  while every person is out of sight.
\<close>

theorem displayed_state_stale_counterexample:
  "attr_state (run [Refresh, ArmAway None Returns] example_entity) = Some STATE_ALARM_DISARMED
   \<and> projected_state (run [Refresh, ArmAway None Returns] example_entity) =
       STATE_ALARM_ARMED_AWAY"
  by (simp add: arm_away_returns update_callback_fields projected_state_def
      all_out_of_sight_def is_house_empty_def example_entity_def example_home_def)

text \<open>
  Claim C6, amended. In every state reached by a sequence of operations that ends with
  a refresh, the displayed state and the availability equal the projection of the
  current person and monitoring flags. Arm-away and disarm leave the displayed state
  and the availability as the last refresh cached them.
\<close>

theorem displayed_state_fresh_after_refresh:
  "attr_state (run (cs @ [Refresh]) s) = Some (projected_state (run (cs @ [Refresh]) s))
   \<and> attr_available (run (cs @ [Refresh]) s) = projected_available (run (cs @ [Refresh]) s)
   \<and> attr_state (exec (ArmAway code reply) s) = attr_state s
   \<and> attr_available (exec (ArmAway code reply) s) = attr_available s
   \<and> attr_state (exec (Disarm code reply) s) = attr_state s
   \<and> attr_available (exec (Disarm code reply) s) = attr_available s"
proof -
  have "run (cs @ [Refresh]) s = async_update_callback (run cs s)"
    by (simp add: run_append)
  then have fresh:
    "attr_state (run (cs @ [Refresh]) s) = Some (projected_state (run (cs @ [Refresh]) s))"
    "attr_available (run (cs @ [Refresh]) s) = projected_available (run (cs @ [Refresh]) s)"
    by (simp_all add: projected_state_house_empty projected_available_def
        update_callback_house_empty update_callback_monitoring update_callback_fields)
  have cached:
    "attr_state (exec (ArmAway code reply) s) = attr_state s"
    "attr_available (exec (ArmAway code reply) s) = attr_available s"
    "attr_state (exec (Disarm code reply) s) = attr_state s"
    "attr_available (exec (Disarm code reply) s) = attr_available s"
    by (cases reply; simp add: arm_away_returns arm_away_raises disarm_returns disarm_raises)+
  from fresh cached show ?thesis by simp
qed

theorem displayed_state_fresh_after_refresh_witness:
  "attr_state (run [Refresh, ArmAway None Returns, Refresh] example_entity) =
     Some STATE_ALARM_ARMED_AWAY
   \<and> projected_state (run [Refresh, ArmAway None Returns, Refresh] example_entity) =
     STATE_ALARM_ARMED_AWAY
   \<and> attr_available (run [Refresh, ArmAway None Returns, Refresh] example_entity)"
  using displayed_state_fresh_after_refresh
    [of "[Refresh, ArmAway None Returns]" example_entity None Returns]
  by (simp add: arm_away_returns update_callback_fields projected_state_def
      all_out_of_sight_def is_house_empty_def example_entity_def example_home_def
      example_siren_def example_camera_def is_camera_monitoring_def is_siren_monitoring_def
      truthy_str_def truthy_module_def)

end
